theory Spec2Isabelle
  imports Complex_Main "HOL-Library.AList"
begin

section \<open>Bond metrics calculator (scripts/python/calculate\_bond\_metrics.py)\<close>

text \<open>
  The script reads a JSON payload, computes price, duration, convexity and credit
  figures for every bond of the payload, and writes the augmented records.

  Conventions of the embedding:
  \<^item> a parsed JSON value is a value of \<open>json\<close>; a Python dict is an association list in
    insertion order (\<open>map_of\<close> reads a key, \<open>AList.update\<close> is \<open>d[k] = v\<close>: it replaces
    the value of a key in place and appends a new key at the end);
  \<^item> a Python float is a \<open>pyfloat\<close>: a finite value, an infinity or NaN. A finite
    value is a real number, and an operation on finite values gives the exact result
    when it lies in the range of the doubles, an infinity when it overflows and zero when
    it underflows. What is left out is the rounding of a result inside the range, the
    sign of zero, and the memory and time a long loop takes;
  \<^item> every exception is a value of \<open>error\<close>, and a function that can raise returns
    \<open>error + 'a\<close> with \<open>Inl\<close> the exception;
  \<^item> the conversions of Python that read a number out of a string (\<open>float(s)\<close>,
    \<open>int(s)\<close>) and the JSON codec (\<open>json.loads\<close>, \<open>json.dumps\<close>) are library code:
    they are parameters of the functions that call them.
\<close>

subsection \<open>Floats\<close>

datatype pyfloat = Fin real | Inf bool | NaN

abbreviation PInf :: pyfloat where
  "PInf \<equiv> Inf True"

abbreviation NInf :: pyfloat where
  "NInf \<equiv> Inf False"

text \<open>A real number rounds to an infinity from \<open>OVERFLOW\<close> on (half a unit in the last
  place above the largest double), and to zero up to \<open>UNDERFLOW\<close> (half the smallest
  subnormal double).\<close>

definition OVERFLOW :: real where
  "OVERFLOW = 2 ^ 1024 - 2 ^ 970"

definition UNDERFLOW :: real where
  "UNDERFLOW = 1 / 2 ^ 1075"

definition overflows :: "real \<Rightarrow> bool" where
  "overflows x = (OVERFLOW \<le> \<bar>x\<bar>)"

definition underflows :: "real \<Rightarrow> bool" where
  "underflows x = (\<bar>x\<bar> \<le> UNDERFLOW)"

text \<open>The float of the exact result of a multiplication, a division or a power.\<close>

definition fl :: "real \<Rightarrow> pyfloat" where
  "fl x = (if overflows x then Inf (0 < x) else if underflows x then Fin 0 else Fin x)"

text \<open>The float of the exact result of an addition: a sum of doubles overflows, and
  never underflows.\<close>

definition fl_sum :: "real \<Rightarrow> pyfloat" where
  "fl_sum x = (if overflows x then Inf (0 < x) else Fin x)"

text \<open>\<open>a + b\<close> and \<open>a * b\<close> on floats: neither raises.\<close>

fun fadd :: "pyfloat \<Rightarrow> pyfloat \<Rightarrow> pyfloat" where
  "fadd (Fin a) (Fin b) = fl_sum (a + b)"
| "fadd NaN b = NaN"
| "fadd a NaN = NaN"
| "fadd (Inf s) (Inf t) = (if s = t then Inf s else NaN)"
| "fadd (Inf s) (Fin b) = Inf s"
| "fadd (Fin a) (Inf t) = Inf t"

fun fmul :: "pyfloat \<Rightarrow> pyfloat \<Rightarrow> pyfloat" where
  "fmul (Fin a) (Fin b) = fl (a * b)"
| "fmul NaN b = NaN"
| "fmul a NaN = NaN"
| "fmul (Inf s) (Inf t) = Inf (s = t)"
| "fmul (Inf s) (Fin b) = (if b = 0 then NaN else Inf (s = (0 < b)))"
| "fmul (Fin a) (Inf t) = (if a = 0 then NaN else Inf (t = (0 < a)))"

text \<open>\<open>x <= 0\<close> on a float: false on NaN.\<close>

fun le_zero :: "pyfloat \<Rightarrow> bool" where
  "le_zero (Fin x) = (x \<le> 0)"
| "le_zero (Inf s) = (\<not> s)"
| "le_zero NaN = False"

subsection \<open>Values and exceptions\<close>

datatype json =
    JNull
  | JBool bool
  | JInt int
  | JFloat pyfloat
  | JStr string
  | JArr "json list"
  | JObj "(string \<times> json) list"

datatype error =
    KeyError string
  | TypeError
  | ValueError
  | OverflowError
  | ZeroDivisionError
  | AttributeError
  | JSONDecodeError

definition bindE :: "error + 'a \<Rightarrow> ('a \<Rightarrow> error + 'b) \<Rightarrow> error + 'b" where
  "bindE m f = (case m of Inl e \<Rightarrow> Inl e | Inr x \<Rightarrow> f x)"

text \<open>\<open>a / b\<close> on floats: a zero divisor raises, whatever the dividend.\<close>

fun truediv :: "pyfloat \<Rightarrow> pyfloat \<Rightarrow> error + pyfloat" where
  "truediv a (Fin b) =
     (if b = 0 then Inl ZeroDivisionError
      else Inr (case a of
                  Fin x \<Rightarrow> fl (x / b)
                | Inf s \<Rightarrow> Inf (s = (0 < b))
                | NaN \<Rightarrow> NaN))"
| "truediv a NaN = Inr NaN"
| "truediv a (Inf t) = Inr (case a of Fin x \<Rightarrow> Fin 0 | Inf s \<Rightarrow> NaN | NaN \<Rightarrow> NaN)"

text \<open>The conversion of an int to a float, as \<open>float(i)\<close>, as the int operand of a
  mixed operation and as the int argument of \<open>math.pow\<close>: an int that rounds beyond the
  largest double is an OverflowError.\<close>

definition float_of_int :: "int \<Rightarrow> error + pyfloat" where
  "float_of_int i =
     (if overflows (of_int i) then Inl OverflowError else Inr (Fin (of_int i)))"

text \<open>\<open>math.pow(x, y)\<close> at an int \<open>y\<close>. The exponent is converted to a float first. For
  a finite base, zero to a negative power is a ValueError, a result that overflows is an
  OverflowError, and a result that underflows is zero. The float of an int from \<open>2^53\<close>
  on is even, so a negative base gives a negative power only at an odd exponent below
  that.\<close>

definition odd_float :: "int \<Rightarrow> bool" where
  "odd_float y = (odd y \<and> \<bar>y\<bar> < 2 ^ 53)"

definition real_pow :: "real \<Rightarrow> int \<Rightarrow> real" where
  "real_pow x y =
     (let m = (if 0 \<le> y then \<bar>x\<bar> ^ nat y else 1 / \<bar>x\<bar> ^ nat (- y))
      in if x < 0 \<and> odd_float y then - m else m)"

fun pow_float :: "pyfloat \<Rightarrow> int \<Rightarrow> error + pyfloat" where
  "pow_float NaN y = Inr (if y = 0 then Fin 1 else NaN)"
| "pow_float (Inf s) y =
     Inr (if 0 < y then Inf (s \<or> \<not> odd_float y) else if y = 0 then Fin 1 else Fin 0)"
| "pow_float (Fin x) y =
     (if x = 0 \<and> y < 0 then Inl ValueError
      else if overflows (real_pow x y) then Inl OverflowError
      else Inr (fl (real_pow x y)))"

definition math_pow :: "pyfloat \<Rightarrow> int \<Rightarrow> error + pyfloat" where
  "math_pow x y = bindE (float_of_int y) (\<lambda>yf. pow_float x y)"

text \<open>\<open>sum(f(x) for x in xs)\<close>: the terms are computed and added one after the other,
  starting from 0.\<close>

fun sum_gen :: "('a \<Rightarrow> error + pyfloat) \<Rightarrow> 'a list \<Rightarrow> pyfloat \<Rightarrow> error + pyfloat" where
  "sum_gen f [] acc = Inr acc"
| "sum_gen f (x # xs) acc = bindE (f x) (\<lambda>v. sum_gen f xs (fadd acc v))"

text \<open>The sum of a list of floats, in its order.\<close>

definition py_sum :: "pyfloat list \<Rightarrow> pyfloat" where
  "py_sum xs = foldl fadd (Fin 0) xs"

subsection \<open>The lookup tables\<close>

definition RATING_PD :: "(string \<times> real) list" where
  "RATING_PD =
     [(''AAA'', 0.0002),
      (''AA+'', 0.0003),
      (''AA'', 0.0005),
      (''AA-'', 0.0008),
      (''A+'', 0.0012),
      (''A'', 0.0018),
      (''A-'', 0.0025),
      (''BBB+'', 0.004),
      (''BBB'', 0.007),
      (''BBB-'', 0.012),
      (''BB+'', 0.02),
      (''BB'', 0.035),
      (''B+'', 0.06)]"

definition SECTOR_LGD :: "(string \<times> real) list" where
  "SECTOR_LGD =
     [(''Government'', 0.05),
      (''Banking'', 0.45),
      (''Technology'', 0.40),
      (''Healthcare'', 0.35),
      (''Energy'', 0.50),
      (''Utilities'', 0.35),
      (''Telecom'', 0.45),
      (''Industrials'', 0.40),
      (''Consumer'', 0.35),
      (''Financial Services'', 0.40)]"

subsection \<open>Python operations on JSON values\<close>

text \<open>\<open>bond[k]\<close> with a string key: only a dict can be subscripted by a string.\<close>

fun subscript :: "json \<Rightarrow> string \<Rightarrow> error + json" where
  "subscript (JObj kvs) k = (case map_of kvs k of None \<Rightarrow> Inl (KeyError k) | Some v \<Rightarrow> Inr v)"
| "subscript _ k = Inl TypeError"

text \<open>\<open>float(v)\<close>: a float is itself (an infinity and NaN too), a boolean and an int
  convert, a string goes through the parser \<open>str_float\<close> (\<open>None\<close> is ValueError),
  everything else is a TypeError.\<close>

fun py_float :: "(string \<Rightarrow> pyfloat option) \<Rightarrow> json \<Rightarrow> error + pyfloat" where
  "py_float str_float (JBool b) = Inr (Fin (if b then 1 else 0))"
| "py_float str_float (JInt i) = float_of_int i"
| "py_float str_float (JFloat x) = Inr x"
| "py_float str_float (JStr s) = (case str_float s of None \<Rightarrow> Inl ValueError | Some x \<Rightarrow> Inr x)"
| "py_float str_float _ = Inl TypeError"

text \<open>\<open>int(v)\<close>: a finite float is truncated toward zero, an infinity is an
  OverflowError and NaN a ValueError; a string goes through the parser \<open>str_int\<close>.\<close>

fun py_int :: "(string \<Rightarrow> int option) \<Rightarrow> json \<Rightarrow> error + int" where
  "py_int str_int (JBool b) = Inr (if b then 1 else 0)"
| "py_int str_int (JInt i) = Inr i"
| "py_int str_int (JFloat (Fin r)) = Inr (if 0 \<le> r then \<lfloor>r\<rfloor> else \<lceil>r\<rceil>)"
| "py_int str_int (JFloat (Inf s)) = Inl OverflowError"
| "py_int str_int (JFloat NaN) = Inl ValueError"
| "py_int str_int (JStr s) = (case str_int s of None \<Rightarrow> Inl ValueError | Some i \<Rightarrow> Inr i)"
| "py_int str_int _ = Inl TypeError"

text \<open>\<open>table.get(key, default)\<close> on a table with string keys: a list or a dict is
  unhashable (TypeError); a number, boolean or null is hashable and equals no key.\<close>

fun dict_get :: "(string \<times> real) list \<Rightarrow> json \<Rightarrow> real \<Rightarrow> error + real" where
  "dict_get table (JStr s) dflt = Inr (case map_of table s of None \<Rightarrow> dflt | Some v \<Rightarrow> v)"
| "dict_get table (JArr xs) dflt = Inl TypeError"
| "dict_get table (JObj kvs) dflt = Inl TypeError"
| "dict_get table _ dflt = Inr dflt"

text \<open>\<open>dict(bond)\<close>: a copy of a dict. The call is reached with a dict only, every
  other value having failed at the first subscript.\<close>

fun dict_copy :: "json \<Rightarrow> error + (string \<times> json) list" where
  "dict_copy (JObj kvs) = Inr kvs"
| "dict_copy _ = Inl TypeError"

text \<open>\<open>range(a, b)\<close>.\<close>

definition range_list :: "int \<Rightarrow> int \<Rightarrow> int list" where
  "range_list a b = [a..b - 1]"

text \<open>A \<open>for\<close> loop over a list whose body updates the state or raises.\<close>

fun for_each :: "('s \<Rightarrow> 'a \<Rightarrow> error + 's) \<Rightarrow> 'a list \<Rightarrow> 's \<Rightarrow> error + 's" where
  "for_each body [] s = Inr s"
| "for_each body (x # xs) s = bindE (body s x) (for_each body xs)"

subsection \<open>calculate\_metrics\<close>

text \<open>The local variables read from the bond (lines 37 to 43).\<close>

record inputs =
  face_value :: pyfloat
  coupon_rate :: pyfloat
  ytm :: pyfloat
  maturity :: int
  bond_type :: json
  rating :: json
  sector :: json

text \<open>\<open>float(bond[k])\<close> and \<open>int(bond[k])\<close>.\<close>

definition float_field :: "(string \<Rightarrow> pyfloat option) \<Rightarrow> json \<Rightarrow> string \<Rightarrow> error + pyfloat" where
  "float_field str_float bond k = bindE (subscript bond k) (py_float str_float)"

definition int_field :: "(string \<Rightarrow> int option) \<Rightarrow> json \<Rightarrow> string \<Rightarrow> error + int" where
  "int_field str_int bond k = bindE (subscript bond k) (py_int str_int)"

definition read_inputs ::
  "(string \<Rightarrow> pyfloat option) \<Rightarrow> (string \<Rightarrow> int option) \<Rightarrow> json \<Rightarrow> error + inputs" where
  "read_inputs str_float str_int bond =
     bindE (float_field str_float bond ''faceValue'') (\<lambda>fv.
     bindE (float_field str_float bond ''couponRate'') (\<lambda>cr.
     bindE (float_field str_float bond ''yieldToMaturity'') (\<lambda>y.
     bindE (truediv y (Fin 100)) (\<lambda>y100.
     bindE (int_field str_int bond ''maturityYears'') (\<lambda>m.
     bindE (subscript bond ''type'') (\<lambda>t.
     bindE (subscript bond ''rating'') (\<lambda>r.
     bindE (subscript bond ''sector'') (\<lambda>s.
       Inr \<lparr>face_value = fv, coupon_rate = cr, ytm = y100, maturity = m,
            bond_type = t, rating = r, sector = s\<rparr>))))))))"

text \<open>A cashflow entry (the dict literal of lines 56 to 62).\<close>

record cashflow =
  cf_year :: int
  cf_coupon :: pyfloat
  cf_principal :: pyfloat
  cf_total :: pyfloat
  cf_discounted :: pyfloat

text \<open>The body of the loop of line 49; the state is \<open>(market_price, cashflows)\<close>.\<close>

definition cashflow_step ::
  "inputs \<Rightarrow> pyfloat \<Rightarrow> pyfloat \<times> cashflow list \<Rightarrow> int \<Rightarrow> error + pyfloat \<times> cashflow list" where
  "cashflow_step inp annual_coupon st yr =
     (let principal = (if yr = maturity inp then face_value inp else Fin 0);
          coupon = annual_coupon;
          total = fadd coupon principal
      in bindE (math_pow (fadd (Fin 1) (ytm inp)) yr) (\<lambda>p.
         bindE (truediv total p) (\<lambda>discounted.
           Inr (fadd (fst st) discounted,
                snd st @ [\<lparr>cf_year = yr, cf_coupon = coupon, cf_principal = principal,
                           cf_total = total, cf_discounted = discounted\<rparr>]))))"

text \<open>The computed figures (lines 45 to 85).\<close>

record metrics =
  market_price :: pyfloat
  macaulay_duration :: pyfloat
  duration :: pyfloat
  convexity :: pyfloat
  pv01 :: pyfloat
  dv01 :: pyfloat
  cr01 :: pyfloat
  pd :: pyfloat
  lgd :: pyfloat
  expected_loss :: pyfloat
  cashflows :: "cashflow list"

text \<open>The terms of the two sums of lines 71 and 75: an int times a float.\<close>

definition year_term :: "cashflow \<Rightarrow> error + pyfloat" where
  "year_term cf = bindE (float_of_int (cf_year cf)) (\<lambda>y. Inr (fmul y (cf_discounted cf)))"

definition year_year_term :: "cashflow \<Rightarrow> error + pyfloat" where
  "year_year_term cf =
     bindE (float_of_int (cf_year cf * (cf_year cf + 1))) (\<lambda>y. Inr (fmul y (cf_discounted cf)))"

definition durations ::
  "inputs \<Rightarrow> pyfloat \<Rightarrow> cashflow list \<Rightarrow> error + pyfloat \<times> pyfloat \<times> pyfloat" where
  "durations inp mp cfs =
     (if le_zero mp then Inr (Fin 0, Fin 0, Fin 0)
      else
        bindE (sum_gen year_term cfs (Fin 0)) (\<lambda>s1.
        bindE (truediv s1 mp) (\<lambda>mac.
        bindE (truediv mac (fadd (Fin 1) (ytm inp))) (\<lambda>dur.
        bindE (sum_gen year_year_term cfs (Fin 0)) (\<lambda>s2.
        bindE (truediv s2 (fmul (fmul mp (fadd (Fin 1) (ytm inp))) (fadd (Fin 1) (ytm inp))))
          (\<lambda>conv.
          Inr (mac, dur, conv)))))))"

definition compute_metrics :: "inputs \<Rightarrow> error + metrics" where
  "compute_metrics inp =
     bindE (truediv (coupon_rate inp) (Fin 100)) (\<lambda>rate.
     let annual_coupon = fmul (face_value inp) rate in
     bindE (for_each (cashflow_step inp annual_coupon) (range_list 1 (maturity inp + 1))
              (Fin 0, []))
       (\<lambda>(mp, cfs).
     bindE (durations inp mp cfs) (\<lambda>(mac, dur, conv).
     let pv = fmul (fmul dur mp) (Fin 0.0001);
         dv = pv;
         cr = (if bond_type inp = JStr ''Corporate'' then fmul (fmul dur mp) (Fin 0.0001)
               else Fin 0)
     in
     bindE (dict_get RATING_PD (rating inp) 0.001) (\<lambda>pd_frac.
     let pd_pct = fmul (Fin pd_frac) (Fin 100) in
     bindE (dict_get SECTOR_LGD (sector inp) 0.40) (\<lambda>lgd_frac.
     let lgd_pct = fmul (Fin lgd_frac) (Fin 100) in
     bindE (truediv pd_pct (Fin 100)) (\<lambda>pd_back.
     bindE (truediv lgd_pct (Fin 100)) (\<lambda>lgd_back.
     let el = fmul (fmul pd_back lgd_back) mp
     in
       Inr \<lparr>market_price = mp, macaulay_duration = mac, duration = dur, convexity = conv,
            pv01 = pv, dv01 = dv, cr01 = cr, pd = pd_pct, lgd = lgd_pct,
            expected_loss = el, cashflows = cfs\<rparr>)))))))"

text \<open>The cashflow entry as the dict it is in the output.\<close>

definition cashflow_json :: "cashflow \<Rightarrow> json" where
  "cashflow_json cf =
     JObj [(''year'', JInt (cf_year cf)),
           (''coupon'', JFloat (cf_coupon cf)),
           (''principal'', JFloat (cf_principal cf)),
           (''total'', JFloat (cf_total cf)),
           (''discounted'', JFloat (cf_discounted cf))]"

text \<open>The assignments of lines 88 to 98, in their order.\<close>

definition set_outputs :: "metrics \<Rightarrow> (string \<times> json) list \<Rightarrow> (string \<times> json) list" where
  "set_outputs m out =
     AList.update ''cashflows'' (JArr (map cashflow_json (cashflows m)))
    (AList.update ''expectedLoss'' (JFloat (expected_loss m))
    (AList.update ''lgd'' (JFloat (lgd m))
    (AList.update ''pd'' (JFloat (pd m))
    (AList.update ''cr01'' (JFloat (cr01 m))
    (AList.update ''dv01'' (JFloat (dv01 m))
    (AList.update ''pv01'' (JFloat (pv01 m))
    (AList.update ''convexity'' (JFloat (convexity m))
    (AList.update ''duration'' (JFloat (duration m))
    (AList.update ''macaulayDuration'' (JFloat (macaulay_duration m))
    (AList.update ''marketPrice'' (JFloat (market_price m)) out))))))))))"

definition calculate_metrics ::
  "(string \<Rightarrow> pyfloat option) \<Rightarrow> (string \<Rightarrow> int option) \<Rightarrow> json \<Rightarrow> error + json" where
  "calculate_metrics str_float str_int bond =
     bindE (read_inputs str_float str_int bond) (\<lambda>inp.
     bindE (compute_metrics inp) (\<lambda>m.
     bindE (dict_copy bond) (\<lambda>out.
       Inr (JObj (set_outputs m out)))))"

subsection \<open>main\<close>

text \<open>\<open>payload.get("bonds", [])\<close>: only a dict has the method.\<close>

fun get_bonds :: "json \<Rightarrow> error + json" where
  "get_bonds (JObj kvs) = Inr (case map_of kvs ''bonds'' of None \<Rightarrow> JArr [] | Some v \<Rightarrow> v)"
| "get_bonds _ = Inl AttributeError"

text \<open>What \<open>for b in bonds\<close> walks through: the elements of a list, the keys of a dict,
  the characters of a string; nothing else is iterable.\<close>

fun iterate :: "json \<Rightarrow> error + json list" where
  "iterate (JArr xs) = Inr xs"
| "iterate (JObj kvs) = Inr (map (\<lambda>kv. JStr (fst kv)) kvs)"
| "iterate (JStr s) = Inr (map (\<lambda>c. JStr [c]) s)"
| "iterate _ = Inl TypeError"

text \<open>The list comprehension of line 106: the first exception ends it.\<close>

fun map_metrics ::
  "(string \<Rightarrow> pyfloat option) \<Rightarrow> (string \<Rightarrow> int option) \<Rightarrow> json list \<Rightarrow> error + json list" where
  "map_metrics str_float str_int [] = Inr []"
| "map_metrics str_float str_int (b # bs) =
     bindE (calculate_metrics str_float str_int b) (\<lambda>r.
     bindE (map_metrics str_float str_int bs) (\<lambda>rs. Inr (r # rs)))"

text \<open>The library functions main calls.\<close>

record library =
  str_to_float :: "string \<Rightarrow> pyfloat option"
  str_to_int :: "string \<Rightarrow> int option"
  json_loads :: "string \<Rightarrow> json option"
  json_dumps :: "json \<Rightarrow> string"

text \<open>The bonds the script walks through, from the text on standard input (lines 103
  to 105 and the iteration of line 106).\<close>

definition read_bonds :: "library \<Rightarrow> string \<Rightarrow> error + json list" where
  "read_bonds lib raw =
     bindE (case json_loads lib (if raw \<noteq> [] then raw else ''{}'') of
              None \<Rightarrow> Inl JSONDecodeError | Some v \<Rightarrow> Inr v) (\<lambda>payload.
     bindE (get_bonds payload) (\<lambda>bonds.
       iterate bonds))"

text \<open>The result the script computes (line 106).\<close>

definition main_result :: "library \<Rightarrow> string \<Rightarrow> error + json" where
  "main_result lib raw =
     bindE (read_bonds lib raw) (\<lambda>bs.
     bindE (map_metrics (str_to_float lib) (str_to_int lib) bs) (\<lambda>rs.
       Inr (JObj [(''bonds'', JArr rs)])))"

text \<open>A run of the script: the exception it ends with, if any, and the text written to
  standard output. The only write is the last statement of main (line 107).\<close>

record run =
  raised :: "error option"
  stdout :: string

definition main :: "library \<Rightarrow> string \<Rightarrow> run" where
  "main lib raw =
     (case main_result lib raw of
        Inl e \<Rightarrow> \<lparr>raised = Some e, stdout = []\<rparr>
      | Inr result \<Rightarrow> \<lparr>raised = None, stdout = json_dumps lib result\<rparr>)"

subsection \<open>Vocabulary of the statements\<close>

text \<open>A field of a JSON object.\<close>

fun jfield :: "json \<Rightarrow> string \<Rightarrow> json option" where
  "jfield (JObj kvs) k = map_of kvs k"
| "jfield _ k = None"



text \<open>The keys calculate\_metrics assigns.\<close>

definition computed_keys :: "string list" where
  "computed_keys =
     [''marketPrice'', ''macaulayDuration'', ''duration'', ''convexity'', ''pv01'', ''dv01'',
      ''cr01'', ''pd'', ''lgd'', ''expectedLoss'', ''cashflows'']"

text \<open>A finite float, and its value.\<close>

fun is_fin :: "pyfloat \<Rightarrow> bool" where
  "is_fin (Fin x) = True"
| "is_fin _ = False"

fun fin_value :: "pyfloat \<Rightarrow> real" where
  "fin_value (Fin x) = x"
| "fin_value _ = 0"

text \<open>\<open>x \<approx> v\<close> for a value \<open>v\<close> printed with an error bound \<open>eps\<close>.\<close>

definition approx :: "real \<Rightarrow> real \<Rightarrow> real \<Rightarrow> bool" where
  "approx x v eps = (\<bar>x - v\<bar> \<le> eps)"

text \<open>A float field of a record that is finite and is \<open>v\<close> within \<open>eps\<close>.\<close>

definition approx_field :: "json \<Rightarrow> string \<Rightarrow> real \<Rightarrow> real \<Rightarrow> bool" where
  "approx_field out k v eps =
     (case jfield out k of Some (JFloat (Fin x)) \<Rightarrow> approx x v eps | _ \<Rightarrow> False)"

text \<open>A string conversion that rejects every string, for the inputs that hold JSON
  numbers only and never reach it.\<close>

definition no_parse :: "string \<Rightarrow> 'a option" where
  "no_parse s = None"

text \<open>The exceptions of reading a field and converting it: the parsing and type
  errors.\<close>

fun conversion_error :: "error \<Rightarrow> bool" where
  "conversion_error (KeyError k) = True"
| "conversion_error TypeError = True"
| "conversion_error ValueError = True"
| "conversion_error OverflowError = True"
| "conversion_error e = False"

text \<open>A required field of the bond is missing, or is not a number where
  calculate\_metrics converts it to one.\<close>

definition bad_field :: "(string \<Rightarrow> pyfloat option) \<Rightarrow> (string \<Rightarrow> int option) \<Rightarrow> json \<Rightarrow> bool" where
  "bad_field str_float str_int bond =
     (isl (float_field str_float bond ''faceValue'') \<or>
      isl (float_field str_float bond ''couponRate'') \<or>
      isl (float_field str_float bond ''yieldToMaturity'') \<or>
      isl (int_field str_int bond ''maturityYears'') \<or>
      isl (subscript bond ''type'') \<or>
      isl (subscript bond ''rating'') \<or>
      isl (subscript bond ''sector''))"

subsection \<open>Sample inputs\<close>

text \<open>The bond of the end-to-end example and the record the code computes for it.\<close>

definition example_bond :: json where
  "example_bond =
     JObj [(''faceValue'', JInt 1000), (''couponRate'', JInt 5), (''yieldToMaturity'', JInt 6),
           (''maturityYears'', JInt 2), (''type'', JStr ''Corporate''), (''rating'', JStr ''BBB''),
           (''sector'', JStr ''Technology'')]"

definition example_result :: json where
  "example_result =
     JObj [(''faceValue'', JInt 1000), (''couponRate'', JInt 5), (''yieldToMaturity'', JInt 6),
           (''maturityYears'', JInt 2), (''type'', JStr ''Corporate''), (''rating'', JStr ''BBB''),
           (''sector'', JStr ''Technology''),
           (''marketPrice'', JFloat (Fin (2757500 / 2809))),
           (''macaulayDuration'', JFloat (Fin (2153 / 1103))),
           (''duration'', JFloat (Fin (107650 / 58459))),
           (''convexity'', JFloat (Fin (16015000 / 3098327))),
           (''pv01'', JFloat (Fin (53825 / 297754))),
           (''dv01'', JFloat (Fin (53825 / 297754))),
           (''cr01'', JFloat (Fin (53825 / 297754))),
           (''pd'', JFloat (Fin (7 / 10))),
           (''lgd'', JFloat (Fin 40)),
           (''expectedLoss'', JFloat (Fin (7721 / 2809))),
           (''cashflows'',
              JArr [JObj [(''year'', JInt 1), (''coupon'', JFloat (Fin 50)),
                          (''principal'', JFloat (Fin 0)), (''total'', JFloat (Fin 50)),
                          (''discounted'', JFloat (Fin (2500 / 53)))],
                    JObj [(''year'', JInt 2), (''coupon'', JFloat (Fin 50)),
                          (''principal'', JFloat (Fin 1000)), (''total'', JFloat (Fin 1050)),
                          (''discounted'', JFloat (Fin (2625000 / 2809)))]])]"

text \<open>A one-year government bond with a field the calculator does not know.\<close>

definition government_bond :: json where
  "government_bond =
     JObj [(''isin'', JStr ''XS0000000001''), (''faceValue'', JInt 100), (''couponRate'', JInt 10),
           (''yieldToMaturity'', JInt 10), (''maturityYears'', JInt 1),
           (''type'', JStr ''Government''), (''rating'', JStr ''AAA''),
           (''sector'', JStr ''Government'')]"

definition government_result :: json where
  "government_result =
     JObj [(''isin'', JStr ''XS0000000001''), (''faceValue'', JInt 100), (''couponRate'', JInt 10),
           (''yieldToMaturity'', JInt 10), (''maturityYears'', JInt 1),
           (''type'', JStr ''Government''), (''rating'', JStr ''AAA''),
           (''sector'', JStr ''Government''),
           (''marketPrice'', JFloat (Fin 100)),
           (''macaulayDuration'', JFloat (Fin 1)),
           (''duration'', JFloat (Fin (10 / 11))),
           (''convexity'', JFloat (Fin (200 / 121))),
           (''pv01'', JFloat (Fin (1 / 110))),
           (''dv01'', JFloat (Fin (1 / 110))),
           (''cr01'', JFloat (Fin 0)),
           (''pd'', JFloat (Fin (1 / 50))),
           (''lgd'', JFloat (Fin 5)),
           (''expectedLoss'', JFloat (Fin (1 / 1000))),
           (''cashflows'',
              JArr [JObj [(''year'', JInt 1), (''coupon'', JFloat (Fin 10)),
                          (''principal'', JFloat (Fin 100)), (''total'', JFloat (Fin 110)),
                          (''discounted'', JFloat (Fin 100))]])]"

text \<open>A bond whose maturity is zero, one whose maturity is the float 1.5, one whose
  maturity is -2.5 at a yield of -100%, and one whose maturity is infinite.\<close>

definition zero_maturity_bond :: json where
  "zero_maturity_bond =
     JObj [(''faceValue'', JInt 1000), (''couponRate'', JInt 5), (''yieldToMaturity'', JInt 6),
           (''maturityYears'', JInt 0), (''type'', JStr ''Corporate''), (''rating'', JStr ''BBB''),
           (''sector'', JStr ''Technology'')]"

definition zero_maturity_result :: json where
  "zero_maturity_result =
     JObj [(''faceValue'', JInt 1000), (''couponRate'', JInt 5), (''yieldToMaturity'', JInt 6),
           (''maturityYears'', JInt 0), (''type'', JStr ''Corporate''), (''rating'', JStr ''BBB''),
           (''sector'', JStr ''Technology''),
           (''marketPrice'', JFloat (Fin 0)), (''macaulayDuration'', JFloat (Fin 0)),
           (''duration'', JFloat (Fin 0)), (''convexity'', JFloat (Fin 0)),
           (''pv01'', JFloat (Fin 0)), (''dv01'', JFloat (Fin 0)), (''cr01'', JFloat (Fin 0)),
           (''pd'', JFloat (Fin (7 / 10))), (''lgd'', JFloat (Fin 40)),
           (''expectedLoss'', JFloat (Fin 0)), (''cashflows'', JArr [])]"

definition fractional_maturity_bond :: json where
  "fractional_maturity_bond =
     JObj [(''faceValue'', JInt 100), (''couponRate'', JInt 10), (''yieldToMaturity'', JInt 10),
           (''maturityYears'', JFloat (Fin 1.5)), (''type'', JStr ''Government''),
           (''rating'', JStr ''AAA''), (''sector'', JStr ''Government'')]"

definition fractional_maturity_result :: json where
  "fractional_maturity_result =
     JObj [(''faceValue'', JInt 100), (''couponRate'', JInt 10), (''yieldToMaturity'', JInt 10),
           (''maturityYears'', JFloat (Fin 1.5)), (''type'', JStr ''Government''),
           (''rating'', JStr ''AAA''), (''sector'', JStr ''Government''),
           (''marketPrice'', JFloat (Fin 100)),
           (''macaulayDuration'', JFloat (Fin 1)),
           (''duration'', JFloat (Fin (10 / 11))),
           (''convexity'', JFloat (Fin (200 / 121))),
           (''pv01'', JFloat (Fin (1 / 110))),
           (''dv01'', JFloat (Fin (1 / 110))),
           (''cr01'', JFloat (Fin 0)),
           (''pd'', JFloat (Fin (1 / 50))),
           (''lgd'', JFloat (Fin 5)),
           (''expectedLoss'', JFloat (Fin (1 / 1000))),
           (''cashflows'',
              JArr [JObj [(''year'', JInt 1), (''coupon'', JFloat (Fin 10)),
                          (''principal'', JFloat (Fin 100)), (''total'', JFloat (Fin 110)),
                          (''discounted'', JFloat (Fin 100))]])]"

definition negative_maturity_bond :: json where
  "negative_maturity_bond =
     JObj [(''faceValue'', JInt 1000), (''couponRate'', JInt 5), (''yieldToMaturity'', JInt (- 100)),
           (''maturityYears'', JFloat (Fin (- 2.5))), (''type'', JStr ''Corporate''),
           (''rating'', JStr ''BB''), (''sector'', JStr ''Energy'')]"

definition infinite_maturity_bond :: json where
  "infinite_maturity_bond =
     JObj [(''faceValue'', JInt 1000), (''couponRate'', JInt 5), (''yieldToMaturity'', JInt 6),
           (''maturityYears'', JFloat PInf), (''type'', JStr ''Corporate''),
           (''rating'', JStr ''BBB''), (''sector'', JStr ''Technology'')]"





text \<open>A bond whose face value is an int beyond the doubles, at maturity zero, and a
  bond whose yield makes the power of year 2 overflow.\<close>

definition huge_face_bond :: json where
  "huge_face_bond =
     JObj [(''faceValue'', JInt (10 ^ 400)), (''couponRate'', JInt 5), (''yieldToMaturity'', JInt 6),
           (''maturityYears'', JInt 0), (''type'', JStr ''Corporate''), (''rating'', JStr ''BBB''),
           (''sector'', JStr ''Technology'')]"

definition huge_yield_bond :: json where
  "huge_yield_bond =
     JObj [(''faceValue'', JInt 1000), (''couponRate'', JInt 0),
           (''yieldToMaturity'', JInt (10 ^ 200)), (''maturityYears'', JInt 2),
           (''type'', JStr ''Corporate''), (''rating'', JStr ''CCC''),
           (''sector'', JStr ''Technology'')]"

text \<open>A bond without face value, and a library stub: its \<open>json.loads\<close> knows the
  empty object and one text, which stands for a batch of the example bond followed by
  the bond without face value; its \<open>json.dumps\<close> prints the key of a one-key object and
  a star for each element of its list.\<close>

definition faceless_bond :: json where
  "faceless_bond =
     JObj [(''couponRate'', JInt 5), (''yieldToMaturity'', JInt 6),
           (''maturityYears'', JInt 2), (''type'', JStr ''Corporate''), (''rating'', JStr ''BBB''),
           (''sector'', JStr ''Technology'')]"

definition batch_text :: string where
  "batch_text = ''the example bond, then a bond without faceValue''"

definition stub_library :: library where
  "stub_library =
     \<lparr>str_to_float = no_parse,
      str_to_int = no_parse,
      json_loads = (\<lambda>s. if s = ''{}'' then Some (JObj [])
                         else if s = batch_text
                         then Some (JObj [(''bonds'', JArr [example_bond, faceless_bond])])
                         else None),
      json_dumps = (\<lambda>v. case v of
                         JObj [(k, JArr rs)] \<Rightarrow> ''{'' @ k @ '': ['' @ replicate (length rs) (CHR ''*'') @ '']}''
                       | _ \<Rightarrow> ''?'')\<rparr>"

section \<open>Properties\<close>

subsection \<open>Exceptions\<close>

lemma bindE_Inr [simp]: "bindE (Inr x) f = f x"
  by (simp add: bindE_def)

lemma bindE_Inl [simp]: "bindE (Inl e) f = Inl e"
  by (simp add: bindE_def)

lemma bindE_eq_Inr: "bindE m f = Inr y \<longleftrightarrow> (\<exists>x. m = Inr x \<and> f x = Inr y)"
  by (cases m) simp_all

lemma bindE_eq_Inl: "bindE m f = Inl e \<longleftrightarrow> m = Inl e \<or> (\<exists>x. m = Inr x \<and> f x = Inl e)"
  by (cases m) simp_all

lemma isl_bindE: "isl m \<Longrightarrow> isl (bindE m f)"
  by (cases m) simp_all

subsection \<open>The range of the floats\<close>

lemma OVERFLOW_big: "2 ^ 64 < OVERFLOW"
  by (simp add: OVERFLOW_def)

lemma UNDERFLOW_small: "UNDERFLOW < 1 / 2 ^ 64"
  by (simp add: UNDERFLOW_def)

lemma UNDERFLOW_pos: "0 < UNDERFLOW"
  by (simp add: UNDERFLOW_def)

lemma OVERFLOW_pos: "0 < OVERFLOW"
  using OVERFLOW_big by (simp add: less_trans[of 0 "2 ^ 64"])

lemma overflows_small: "\<bar>x\<bar> \<le> 2 ^ 64 \<Longrightarrow> overflows x = False"
  using OVERFLOW_big by (simp add: overflows_def)

lemma underflows_big: "1 / 2 ^ 64 \<le> \<bar>x\<bar> \<Longrightarrow> underflows x = False"
  using UNDERFLOW_small by (simp add: underflows_def)

lemma overflows_0 [simp]: "overflows 0 = False"
  using OVERFLOW_pos by (simp add: overflows_def)

lemma underflows_0 [simp]: "underflows 0 = True"
  using UNDERFLOW_pos by (simp add: underflows_def)

lemma overflows_of_int_small: "\<bar>i\<bar> \<le> 2 ^ 64 \<Longrightarrow> overflows (of_int i) = False"
proof -
  assume "\<bar>i\<bar> \<le> 2 ^ 64"
  then have "\<bar>real_of_int i\<bar> \<le> 2 ^ 64"
    by (metis of_int_abs of_int_le_iff of_int_numeral of_int_power)
  then show ?thesis
    by (rule overflows_small)
qed

lemma fl_0 [simp]: "fl 0 = Fin 0"
  by (simp add: fl_def)

lemma fl_sum_0 [simp]: "fl_sum 0 = Fin 0"
  by (simp add: fl_sum_def)


lemma fmul_Fin_0 [simp]: "fmul (Fin v) (Fin 0) = Fin 0"
  by simp

lemma truediv_100: "\<exists>v. truediv a (Fin 100) = Inr v"
  by simp


text \<open>The rules that evaluate the arithmetic on values far inside the range.\<close>

lemmas float_eval = fl_def fl_sum_def float_of_int_def overflows_small underflows_big
  overflows_of_int_small math_pow_def real_pow_def odd_float_def

subsection \<open>The loop\<close>


text \<open>A step that returns has added one entry, and its discounted value to the price.\<close>

lemma cashflow_step_Inr:
  assumes "cashflow_step inp ac (mp, cfs) y = Inr st"
  shows "\<exists>c. st = (fadd mp (cf_discounted c), cfs @ [c])"
proof -
  let ?p = "if y = maturity inp then face_value inp else Fin 0"
  let ?c = "\<lambda>d. \<lparr>cf_year = y, cf_coupon = ac, cf_principal = ?p,
       cf_total = fadd ac ?p, cf_discounted = d\<rparr>"
  from assms obtain d where "st = (fadd mp d, cfs @ [?c d])"
    by (auto simp: cashflow_step_def Let_def bindE_eq_Inr)
  then have "st = (fadd mp (cf_discounted (?c d)), cfs @ [?c d])"
    by simp
  then show ?thesis by blast
qed

lemma py_sum_snoc: "py_sum (xs @ [x]) = fadd (py_sum xs) x"
  by (simp add: py_sum_def)

lemma for_each_sum:
  "for_each (cashflow_step inp ac) ys (mp, cfs) = Inr (mp', cfs') \<Longrightarrow>
   mp = py_sum (map cf_discounted cfs) \<Longrightarrow> mp' = py_sum (map cf_discounted cfs')"
proof (induction ys arbitrary: mp cfs)
  case Nil
  then show ?case by auto
next
  case (Cons y ys)
  from Cons.prems(1) obtain st where st: "cashflow_step inp ac (mp, cfs) y = Inr st"
    and rest: "for_each (cashflow_step inp ac) ys st = Inr (mp', cfs')"
    by (auto simp: bindE_eq_Inr)
  from cashflow_step_Inr[OF st] obtain c where c: "st = (fadd mp (cf_discounted c), cfs @ [c])"
    by blast
  have "fadd mp (cf_discounted c) = py_sum (map cf_discounted (cfs @ [c]))"
    using Cons.prems(2) by (simp add: py_sum_snoc)
  with rest c Cons.IH[of "fadd mp (cf_discounted c)" "cfs @ [c]"] show ?case by simp
qed

text \<open>A sum of floats that is finite is the sum of finite values, in the reals: an
  infinity or NaN never goes back to a finite value.\<close>

lemma fadd_not_fin: "\<not> is_fin a \<Longrightarrow> \<not> is_fin (fadd a b)"
  by (cases a; cases b) simp_all

lemma foldl_fadd_not_fin: "\<not> is_fin a \<Longrightarrow> \<not> is_fin (foldl fadd a xs)"
  by (induction xs arbitrary: a) (simp_all add: fadd_not_fin)

lemma fadd_Fin:
  "fadd a b = Fin s \<Longrightarrow> is_fin a \<and> is_fin b \<and> s = fin_value a + fin_value b"
  by (cases a; cases b) (auto simp: fl_sum_def split: if_splits)

lemma foldl_fadd_Fin:
  "foldl fadd a xs = Fin s \<Longrightarrow>
   is_fin a \<and> (\<forall>x\<in>set xs. is_fin x) \<and> s = fin_value a + (\<Sum>x\<leftarrow>xs. fin_value x)"
proof (induction xs arbitrary: a)
  case Nil
  then show ?case by simp
next
  case (Cons x xs)
  from Cons.prems have f: "foldl fadd (fadd a x) xs = Fin s"
    by simp
  from Cons.IH[OF f] have 1: "is_fin (fadd a x)" and 2: "\<forall>x\<in>set xs. is_fin x"
    and 3: "s = fin_value (fadd a x) + (\<Sum>x\<leftarrow>xs. fin_value x)"
    by auto
  from 1 obtain t where t: "fadd a x = Fin t"
    by (cases "fadd a x") simp_all
  from fadd_Fin[OF t] t 2 3 show ?case
    by simp
qed

lemma py_sum_Fin:
  "py_sum xs = Fin s \<Longrightarrow> (\<forall>x\<in>set xs. is_fin x) \<and> s = (\<Sum>x\<leftarrow>xs. fin_value x)"
  using foldl_fadd_Fin[of "Fin 0" xs s] by (simp add: py_sum_def)

subsection \<open>The parts of calculate\_metrics\<close>

lemma set_outputs_map_of:
  "map_of (set_outputs m kvs) k =
     (if k = ''cashflows'' then Some (JArr (map cashflow_json (cashflows m)))
      else if k = ''expectedLoss'' then Some (JFloat (expected_loss m))
      else if k = ''lgd'' then Some (JFloat (lgd m))
      else if k = ''pd'' then Some (JFloat (pd m))
      else if k = ''cr01'' then Some (JFloat (cr01 m))
      else if k = ''dv01'' then Some (JFloat (dv01 m))
      else if k = ''pv01'' then Some (JFloat (pv01 m))
      else if k = ''convexity'' then Some (JFloat (convexity m))
      else if k = ''duration'' then Some (JFloat (duration m))
      else if k = ''macaulayDuration'' then Some (JFloat (macaulay_duration m))
      else if k = ''marketPrice'' then Some (JFloat (market_price m))
      else map_of kvs k)"
  by (simp add: set_outputs_def update_conv')

lemma read_inputs_obj: "read_inputs sf si b = Inr inp \<Longrightarrow> \<exists>kvs. b = JObj kvs"
  by (cases b) (simp_all add: read_inputs_def float_field_def)

lemma read_inputs_type:
  "read_inputs sf si b = Inr inp \<Longrightarrow> jfield b ''type'' = Some (bond_type inp)"
  by (cases b) (auto simp: read_inputs_def bindE_eq_Inr split: option.splits)

lemma calculate_metrics_eq_Inr:
  "calculate_metrics sf si b = Inr out \<longleftrightarrow>
     (\<exists>inp m kvs. read_inputs sf si b = Inr inp \<and> compute_metrics inp = Inr m \<and>
        b = JObj kvs \<and> out = JObj (set_outputs m kvs))"
  by (cases b) (auto simp: calculate_metrics_def bindE_eq_Inr dest: read_inputs_obj)

lemma calculate_metrics_of_compute:
  assumes "read_inputs sf si b = Inr inp"
  shows "\<exists>kvs. b = JObj kvs \<and>
           calculate_metrics sf si b =
             (case compute_metrics inp of Inl e \<Rightarrow> Inl e | Inr m \<Rightarrow> Inr (JObj (set_outputs m kvs)))"
  using assms read_inputs_obj[OF assms]
  by (auto simp: calculate_metrics_def split: sum.splits)

lemma compute_metrics_loop:
  assumes "compute_metrics inp = Inr m"
  shows "\<exists>rate. truediv (coupon_rate inp) (Fin 100) = Inr rate \<and>
           for_each (cashflow_step inp (fmul (face_value inp) rate))
             (range_list 1 (maturity inp + 1)) (Fin 0, []) = Inr (market_price m, cashflows m)"
  using assms by (auto simp: compute_metrics_def Let_def bindE_eq_Inr)

lemma compute_metrics_sum:
  assumes "compute_metrics inp = Inr m"
  shows "market_price m = py_sum (map cf_discounted (cashflows m))"
proof -
  from compute_metrics_loop[OF assms] obtain rate where
    "for_each (cashflow_step inp (fmul (face_value inp) rate))
       (range_list 1 (maturity inp + 1)) (Fin 0, []) = Inr (market_price m, cashflows m)"
    by blast
  from for_each_sum[OF this] show ?thesis
    by (simp add: py_sum_def)
qed

lemma compute_metrics_cr01:
  assumes "compute_metrics inp = Inr m"
  shows "cr01 m = (if bond_type inp = JStr ''Corporate'' then pv01 m else Fin 0)"
  using assms by (auto simp: compute_metrics_def Let_def bindE_eq_Inr)

lemma py_float_error: "py_float sf v = Inl e \<Longrightarrow> conversion_error e"
  by (cases v) (auto simp: float_of_int_def split: option.splits if_splits)

lemma py_int_error: "py_int si v = Inl e \<Longrightarrow> conversion_error e"
proof (cases v)
  case (JFloat x)
  assume "py_int si v = Inl e"
  with JFloat show ?thesis
    by (cases x) auto
qed (auto split: option.splits)

lemma subscript_error: "subscript b k = Inl e \<Longrightarrow> conversion_error e"
  by (cases b) (auto split: option.splits)

lemma float_field_error: "float_field sf b k = Inl e \<Longrightarrow> conversion_error e"
  by (auto simp: float_field_def bindE_eq_Inl dest: subscript_error py_float_error)

lemma int_field_error: "int_field si b k = Inl e \<Longrightarrow> conversion_error e"
  by (auto simp: int_field_def bindE_eq_Inl dest: subscript_error py_int_error)

lemma read_inputs_error: "read_inputs sf si b = Inl e \<Longrightarrow> conversion_error e"
  by (auto simp: read_inputs_def bindE_eq_Inl
      dest: float_field_error int_field_error subscript_error)

lemma calculate_metrics_read_error:
  "read_inputs sf si b = Inl e \<Longrightarrow> calculate_metrics sf si b = Inl e"
  by (simp add: calculate_metrics_def)

lemma isl_read_inputs_maturity:
  "isl (int_field si b ''maturityYears'') \<Longrightarrow> isl (read_inputs sf si b)"
  by (auto simp: read_inputs_def bindE_def split: sum.splits)

lemma isl_calculate_metrics: "isl (read_inputs sf si b) \<Longrightarrow> isl (calculate_metrics sf si b)"
  by (simp add: calculate_metrics_def isl_bindE)

lemma isl_read_inputs: "bad_field sf si b \<Longrightarrow> isl (read_inputs sf si b)"
  by (auto simp: bad_field_def read_inputs_def bindE_def split: sum.splits)

lemma map_metrics_fails:
  "b \<in> set bs \<Longrightarrow> isl (calculate_metrics sf si b) \<Longrightarrow> isl (map_metrics sf si bs)"
proof (induction bs)
  case Nil
  then show ?case by simp
next
  case (Cons x xs)
  show ?case
  proof (cases "calculate_metrics sf si x")
    case (Inl e)
    then show ?thesis by simp
  next
    case (Inr r)
    with Cons have "isl (map_metrics sf si xs)" by auto
    with Inr show ?thesis by (simp add: isl_bindE)
  qed
qed



subsection \<open>The exceptions of the arithmetic\<close>













subsection \<open>The lookups\<close>

lemma RATING_PD_range:
  assumes "dict_get RATING_PD v 0.001 = Inr p"
  shows "1 / 10000 \<le> p \<and> p \<le> 1"
proof (cases v)
  case (JStr s)
  show ?thesis
  proof (cases "map_of RATING_PD s")
    case None
    with assms JStr show ?thesis by simp
  next
    case (Some q)
    then have "(s, q) \<in> set RATING_PD"
      by (rule map_of_SomeD)
    moreover from assms JStr Some have "p = q" by simp
    ultimately show ?thesis
      by (auto simp: RATING_PD_def)
  qed
qed (use assms in simp_all)

lemma SECTOR_LGD_range:
  assumes "dict_get SECTOR_LGD v 0.40 = Inr l"
  shows "1 / 10000 \<le> l \<and> l \<le> 1"
proof (cases v)
  case (JStr s)
  show ?thesis
  proof (cases "map_of SECTOR_LGD s")
    case None
    with assms JStr show ?thesis by simp
  next
    case (Some q)
    then have "(s, q) \<in> set SECTOR_LGD"
      by (rule map_of_SomeD)
    moreover from assms JStr Some have "l = q" by simp
    ultimately show ?thesis
      by (auto simp: SECTOR_LGD_def)
  qed
qed (use assms in simp_all)

lemma percent:
  assumes "1 / 10000 \<le> p" and "p \<le> 1"
  shows "fmul (Fin p) (Fin 100) = Fin (p * 100)"
    and "truediv (Fin (p * 100)) (Fin 100) = Inr (Fin p)"
proof -
  have "\<bar>p * 100\<bar> \<le> 2 ^ 64" "1 / 2 ^ 64 \<le> \<bar>p * 100\<bar>" "\<bar>p\<bar> \<le> 2 ^ 64" "1 / 2 ^ 64 \<le> \<bar>p\<bar>"
    using assms by simp_all
  then show "fmul (Fin p) (Fin 100) = Fin (p * 100)"
    and "truediv (Fin (p * 100)) (Fin 100) = Inr (Fin p)"
    by (simp_all add: fl_def overflows_small underflows_big)
qed

lemma fmul_fraction:
  assumes "1 / 10000 \<le> p" and "p \<le> 1" and "1 / 10000 \<le> l" and "l \<le> 1"
  shows "fmul (Fin p) (Fin l) = Fin (p * l)"
proof -
  have "p * l \<le> 1 * 1"
    using assms by (intro mult_mono) simp_all
  moreover have "(1 / 10000) * (1 / 10000) \<le> p * l"
    using assms by (intro mult_mono) simp_all
  ultimately have "\<bar>p * l\<bar> \<le> 2 ^ 64" "1 / 2 ^ 64 \<le> \<bar>p * l\<bar>"
    by simp_all
  then show ?thesis
    by (simp add: fl_def overflows_small underflows_big)
qed

lemma fmul_0_Fin [simp]: "fmul (Fin 0) (Fin v) = Fin 0"
  by simp

lemma compute_metrics_empty:
  assumes "maturity inp \<le> 0"
    and "dict_get RATING_PD (rating inp) 0.001 = Inr p"
    and "dict_get SECTOR_LGD (sector inp) 0.40 = Inr l"
  shows "compute_metrics inp =
     Inr \<lparr>market_price = Fin 0, macaulay_duration = Fin 0, duration = Fin 0, convexity = Fin 0,
          pv01 = Fin 0, dv01 = Fin 0, cr01 = Fin 0, pd = Fin (p * 100), lgd = Fin (l * 100),
          expected_loss = Fin 0, cashflows = []\<rparr>"
proof -
  obtain rate where rate: "truediv (coupon_rate inp) (Fin 100) = Inr rate"
    using truediv_100 by blast
  note pr = RATING_PD_range[OF assms(2)]
  note lr = SECTOR_LGD_range[OF assms(3)]
  from pr lr have pct:
    "fmul (Fin p) (Fin 100) = Fin (p * 100)" "truediv (Fin (p * 100)) (Fin 100) = Inr (Fin p)"
    "fmul (Fin l) (Fin 100) = Fin (l * 100)" "truediv (Fin (l * 100)) (Fin 100) = Inr (Fin l)"
    "fmul (Fin p) (Fin l) = Fin (p * l)"
    by (simp_all only: percent fmul_fraction)
  show ?thesis
    unfolding compute_metrics_def rate bindE_Inr Let_def
    using assms by (simp add: range_list_def durations_def pct del: fmul.simps truediv.simps)
qed

subsection \<open>The loop of a zero-coupon bond\<close>









subsection \<open>The sample inputs, evaluated\<close>

lemma upto_1_1: "[1..1] = [1]"
  by (simp add: upto.simps)

lemma upto_1_2: "[1..2] = [1, 2]"
  by (simp add: upto.simps)

lemma upto_1_3: "[1..3] = [1, 2, 3]"
  by (simp add: upto.simps)

lemmas compute_eval = compute_metrics_def range_list_def cashflow_step_def durations_def
  year_term_def year_year_term_def RATING_PD_def SECTOR_LGD_def power2_eq_square
  power3_eq_cube upto_1_1 upto_1_2 upto_1_3 Let_def float_eval

lemmas read_eval = read_inputs_def float_field_def int_field_def float_eval

lemmas result_eval = set_outputs_def cashflow_json_def

lemma example_inputs:
  "read_inputs sf si example_bond =
     Inr \<lparr>face_value = Fin 1000, coupon_rate = Fin 5, ytm = Fin (6 / 100), maturity = 2,
          bond_type = JStr ''Corporate'', rating = JStr ''BBB'', sector = JStr ''Technology''\<rparr>"
  by (simp add: read_eval example_bond_def)

lemma example_metrics:
  "compute_metrics \<lparr>face_value = Fin 1000, coupon_rate = Fin 5, ytm = Fin (6 / 100), maturity = 2,
          bond_type = JStr ''Corporate'', rating = JStr ''BBB'', sector = JStr ''Technology''\<rparr> =
     Inr \<lparr>market_price = Fin (2757500 / 2809), macaulay_duration = Fin (2153 / 1103),
          duration = Fin (107650 / 58459), convexity = Fin (16015000 / 3098327),
          pv01 = Fin (53825 / 297754), dv01 = Fin (53825 / 297754), cr01 = Fin (53825 / 297754),
          pd = Fin (7 / 10), lgd = Fin 40, expected_loss = Fin (7721 / 2809),
          cashflows =
            [\<lparr>cf_year = 1, cf_coupon = Fin 50, cf_principal = Fin 0, cf_total = Fin 50,
               cf_discounted = Fin (2500 / 53)\<rparr>,
             \<lparr>cf_year = 2, cf_coupon = Fin 50, cf_principal = Fin 1000, cf_total = Fin 1050,
               cf_discounted = Fin (2625000 / 2809)\<rparr>]\<rparr>"
  by (simp add: compute_eval)

lemma example_bond_result: "calculate_metrics sf si example_bond = Inr example_result"
  unfolding calculate_metrics_def example_inputs bindE_Inr example_metrics
  by (simp add: example_bond_def example_result_def result_eval)

lemma government_inputs:
  "read_inputs sf si government_bond =
     Inr \<lparr>face_value = Fin 100, coupon_rate = Fin 10, ytm = Fin (10 / 100), maturity = 1,
          bond_type = JStr ''Government'', rating = JStr ''AAA'', sector = JStr ''Government''\<rparr>"
  by (simp add: read_eval government_bond_def)

lemma government_metrics:
  "compute_metrics \<lparr>face_value = Fin 100, coupon_rate = Fin 10, ytm = Fin (10 / 100), maturity = 1,
          bond_type = JStr ''Government'', rating = JStr ''AAA'', sector = JStr ''Government''\<rparr> =
     Inr \<lparr>market_price = Fin 100, macaulay_duration = Fin 1,
          duration = Fin (10 / 11), convexity = Fin (200 / 121),
          pv01 = Fin (1 / 110), dv01 = Fin (1 / 110), cr01 = Fin 0,
          pd = Fin (1 / 50), lgd = Fin 5, expected_loss = Fin (1 / 1000),
          cashflows =
            [\<lparr>cf_year = 1, cf_coupon = Fin 10, cf_principal = Fin 100, cf_total = Fin 110,
               cf_discounted = Fin 100\<rparr>]\<rparr>"
  by (simp add: compute_eval)

lemma government_bond_result: "calculate_metrics sf si government_bond = Inr government_result"
  unfolding calculate_metrics_def government_inputs bindE_Inr government_metrics
  by (simp add: government_bond_def government_result_def result_eval)

lemma zero_maturity_inputs:
  "read_inputs sf si zero_maturity_bond =
     Inr \<lparr>face_value = Fin 1000, coupon_rate = Fin 5, ytm = Fin (6 / 100), maturity = 0,
          bond_type = JStr ''Corporate'', rating = JStr ''BBB'', sector = JStr ''Technology''\<rparr>"
  by (simp add: read_eval zero_maturity_bond_def)

lemma zero_maturity_metrics:
  "compute_metrics \<lparr>face_value = Fin 1000, coupon_rate = Fin 5, ytm = Fin (6 / 100), maturity = 0,
          bond_type = JStr ''Corporate'', rating = JStr ''BBB'', sector = JStr ''Technology''\<rparr> =
     Inr \<lparr>market_price = Fin 0, macaulay_duration = Fin 0, duration = Fin 0, convexity = Fin 0,
          pv01 = Fin 0, dv01 = Fin 0, cr01 = Fin 0, pd = Fin (7 / 10), lgd = Fin 40,
          expected_loss = Fin 0, cashflows = []\<rparr>"
  by (simp add: compute_eval)

lemma zero_maturity_bond_result:
  "calculate_metrics sf si zero_maturity_bond = Inr zero_maturity_result"
  unfolding calculate_metrics_def zero_maturity_inputs bindE_Inr zero_maturity_metrics
  by (simp add: zero_maturity_bond_def zero_maturity_result_def result_eval)

lemma fractional_maturity_inputs:
  "read_inputs sf si fractional_maturity_bond =
     Inr \<lparr>face_value = Fin 100, coupon_rate = Fin 10, ytm = Fin (10 / 100), maturity = 1,
          bond_type = JStr ''Government'', rating = JStr ''AAA'', sector = JStr ''Government''\<rparr>"
  by (simp add: read_eval fractional_maturity_bond_def)

lemma fractional_maturity_bond_result:
  "calculate_metrics sf si fractional_maturity_bond = Inr fractional_maturity_result"
  unfolding calculate_metrics_def fractional_maturity_inputs bindE_Inr government_metrics
  by (simp add: fractional_maturity_bond_def fractional_maturity_result_def result_eval)

lemma negative_maturity_inputs:
  "read_inputs sf si negative_maturity_bond =
     Inr \<lparr>face_value = Fin 1000, coupon_rate = Fin 5, ytm = Fin (- 100 / 100), maturity = - 2,
          bond_type = JStr ''Corporate'', rating = JStr ''BB'', sector = JStr ''Energy''\<rparr>"
  by (simp add: read_eval negative_maturity_bond_def)







text \<open>Both raise: the conversion of the face value, and \<open>math.pow\<close>.\<close>

lemma huge_face_bond_raises:
  "calculate_metrics sf si huge_face_bond = Inl OverflowError"
  by (simp add: calculate_metrics_def read_inputs_def float_field_def float_of_int_def
      overflows_def OVERFLOW_def huge_face_bond_def)

lemma huge_yield_bond_raises:
  "calculate_metrics sf si huge_yield_bond = Inl OverflowError"
  by (simp add: calculate_metrics_def read_inputs_def float_field_def int_field_def
      compute_metrics_def range_list_def cashflow_step_def math_pow_def real_pow_def
      odd_float_def float_of_int_def fl_def fl_sum_def overflows_def underflows_def
      OVERFLOW_def UNDERFLOW_def upto_1_2 Let_def huge_yield_bond_def)

lemma batch_text_nonempty: "batch_text \<noteq> [] \<and> batch_text \<noteq> ''{}''"
  by (simp add: batch_text_def)


subsection \<open>The claims\<close>

text \<open>
  C1, as the code has it. The calculator fails with a parsing or type error (KeyError,
  TypeError, ValueError or OverflowError) when \<open>int(bond["maturityYears"])\<close> fails,
  and the second part says what that conversion does for every value of the field: it
  fails when the field is missing, is null, an array or an object, is a string \<open>int\<close>
  rejects, or is a float that is infinite or NaN. A boolean, an int and a finite float are
  converted: zero and negative numbers are kept, and a finite float is truncated toward
  zero.
\<close>

theorem maturity_coercion:
  "(isl (int_field si b ''maturityYears'') \<longrightarrow>
      (\<exists>e. calculate_metrics sf si b = Inl e \<and> conversion_error e)) \<and>
   int_field si (JObj kvs) ''maturityYears'' =
      (case map_of kvs ''maturityYears'' of
         None \<Rightarrow> Inl (KeyError ''maturityYears'')
       | Some JNull \<Rightarrow> Inl TypeError
       | Some (JBool t) \<Rightarrow> Inr (if t then 1 else 0)
       | Some (JInt i) \<Rightarrow> Inr i
       | Some (JFloat (Fin r)) \<Rightarrow> Inr (if 0 \<le> r then \<lfloor>r\<rfloor> else \<lceil>r\<rceil>)
       | Some (JFloat (Inf s)) \<Rightarrow> Inl OverflowError
       | Some (JFloat NaN) \<Rightarrow> Inl ValueError
       | Some (JStr s) \<Rightarrow> (case si s of None \<Rightarrow> Inl ValueError | Some i \<Rightarrow> Inr i)
       | Some (JArr xs) \<Rightarrow> Inl TypeError
       | Some (JObj fs) \<Rightarrow> Inl TypeError)"
proof
  show "isl (int_field si b ''maturityYears'') \<longrightarrow>
          (\<exists>e. calculate_metrics sf si b = Inl e \<and> conversion_error e)"
  proof
    assume "isl (int_field si b ''maturityYears'')"
    then have "isl (read_inputs sf si b)"
      by (rule isl_read_inputs_maturity)
    then obtain e where e: "read_inputs sf si b = Inl e"
      by (cases "read_inputs sf si b") simp_all
    from read_inputs_error[OF e] calculate_metrics_read_error[OF e]
    show "\<exists>e. calculate_metrics sf si b = Inl e \<and> conversion_error e"
      by blast
  qed
next
  show "int_field si (JObj kvs) ''maturityYears'' =
      (case map_of kvs ''maturityYears'' of
         None \<Rightarrow> Inl (KeyError ''maturityYears'')
       | Some JNull \<Rightarrow> Inl TypeError
       | Some (JBool t) \<Rightarrow> Inr (if t then 1 else 0)
       | Some (JInt i) \<Rightarrow> Inr i
       | Some (JFloat (Fin r)) \<Rightarrow> Inr (if 0 \<le> r then \<lfloor>r\<rfloor> else \<lceil>r\<rceil>)
       | Some (JFloat (Inf s)) \<Rightarrow> Inl OverflowError
       | Some (JFloat NaN) \<Rightarrow> Inl ValueError
       | Some (JStr s) \<Rightarrow> (case si s of None \<Rightarrow> Inl ValueError | Some i \<Rightarrow> Inr i)
       | Some (JArr xs) \<Rightarrow> Inl TypeError
       | Some (JObj fs) \<Rightarrow> Inl TypeError)"
    by (simp add: int_field_def split: option.splits json.splits pyfloat.splits)
qed

theorem maturity_coercion_witness:
  "int_field no_parse infinite_maturity_bond ''maturityYears'' = Inl OverflowError \<and>
   (\<exists>e. calculate_metrics no_parse no_parse infinite_maturity_bond = Inl e \<and>
      conversion_error e)"
proof -
  have h: "int_field no_parse infinite_maturity_bond ''maturityYears'' = Inl OverflowError"
    by (simp add: int_field_def infinite_maturity_bond_def)
  with maturity_coercion[of no_parse infinite_maturity_bond no_parse] show ?thesis
    by simp
qed

text \<open>
  C1 as it is stated fails: a maturity of zero and a maturity of 1.5 both give a record,
  the first with no cashflow and the second with the cashflow of one year.
\<close>

theorem maturity_coercion_counterexample:
  "calculate_metrics no_parse no_parse zero_maturity_bond = Inr zero_maturity_result \<and>
   calculate_metrics no_parse no_parse fractional_maturity_bond = Inr fractional_maturity_result"
  by (simp add: zero_maturity_bond_result fractional_maturity_bond_result)

text \<open>
  C2, with the figures the code computes. For the bond of the end-to-end example the
  calculator returns the record \<open>example_result\<close>: cashflow year 1 with coupon 50,
  principal 0, total 50 and discounted value 50/1.06, about 47.17; year 2 with coupon 50,
  principal 1000, total 1050 and discounted value 1050/1.06^2, about 934.50; market price
  about 981.67; Macaulay duration about 1.9519; duration about 1.8415; pv01, dv01 and
  cr01 equal and about 0.18077; pd 0.7; lgd 40; expected loss about 2.749. Each "about" is
  half a unit of the last digit written.
\<close>

theorem example_bond_metrics:
  "calculate_metrics sf si example_bond = Inr example_result \<and>
   jfield example_result ''cashflows'' =
     Some (JArr [JObj [(''year'', JInt 1), (''coupon'', JFloat (Fin 50)),
                       (''principal'', JFloat (Fin 0)), (''total'', JFloat (Fin 50)),
                       (''discounted'', JFloat (Fin (50 / 1.06)))],
                 JObj [(''year'', JInt 2), (''coupon'', JFloat (Fin 50)),
                       (''principal'', JFloat (Fin 1000)), (''total'', JFloat (Fin 1050)),
                       (''discounted'', JFloat (Fin (1050 / 1.06\<^sup>2)))]]) \<and>
   approx (50 / 1.06) 47.17 0.005 \<and>
   approx (1050 / 1.06\<^sup>2) 934.50 0.005 \<and>
   approx_field example_result ''marketPrice'' 981.67 0.005 \<and>
   approx_field example_result ''macaulayDuration'' 1.9519 0.00005 \<and>
   approx_field example_result ''duration'' 1.8415 0.00005 \<and>
   approx_field example_result ''pv01'' 0.18077 0.000005 \<and>
   jfield example_result ''dv01'' = jfield example_result ''pv01'' \<and>
   jfield example_result ''cr01'' = jfield example_result ''pv01'' \<and>
   jfield example_result ''pd'' = Some (JFloat (Fin 0.7)) \<and>
   jfield example_result ''lgd'' = Some (JFloat (Fin 40)) \<and>
   approx_field example_result ''expectedLoss'' 2.749 0.0005"
  by (simp add: example_bond_result example_result_def approx_field_def approx_def
      power2_eq_square)

text \<open>
  C2 as it is stated fails: the market price of the example is more than 0.2 away from
  981.90, its pv01 is more than 0.16 away from 0.01808 (it is ten times that), and the
  discounted value of year 2 is more than 0.2 away from 934.72.
\<close>

theorem example_bond_metrics_counterexample:
  "calculate_metrics no_parse no_parse example_bond = Inr example_result \<and>
   jfield example_result ''marketPrice'' = Some (JFloat (Fin (2757500 / 2809))) \<and>
   \<not> approx (2757500 / 2809) 981.90 0.2 \<and>
   jfield example_result ''pv01'' = Some (JFloat (Fin (53825 / 297754))) \<and>
   \<not> approx (53825 / 297754) 0.01808 0.16 \<and>
   jfield example_result ''cashflows'' =
     Some (JArr [JObj [(''year'', JInt 1), (''coupon'', JFloat (Fin 50)),
                       (''principal'', JFloat (Fin 0)), (''total'', JFloat (Fin 50)),
                       (''discounted'', JFloat (Fin (2500 / 53)))],
                 JObj [(''year'', JInt 2), (''coupon'', JFloat (Fin 50)),
                       (''principal'', JFloat (Fin 1000)), (''total'', JFloat (Fin 1050)),
                       (''discounted'', JFloat (Fin (2625000 / 2809)))]]) \<and>
   \<not> approx (2625000 / 2809) 934.72 0.2"
  by (simp add: example_bond_result example_result_def approx_def)



text \<open>
  C4. For every bond the calculator returns a record for, the \<open>discounted\<close> fields of
  the entries of the output \<open>cashflows\<close> add up to the output \<open>marketPrice\<close>: the
  output holds the entries \<open>cfs\<close> as dicts, and its market price is the sum of their
  discounted values, added as floats in their order. When that sum is finite, every
  discounted value is finite and the sum is their sum in the reals.
\<close>

theorem discounted_sum_is_market_price:
  assumes "calculate_metrics sf si b = Inr out"
  shows "\<exists>cfs. jfield out ''cashflows'' = Some (JArr (map cashflow_json cfs)) \<and>
           jfield out ''marketPrice'' = Some (JFloat (py_sum (map cf_discounted cfs))) \<and>
           (\<forall>s. py_sum (map cf_discounted cfs) = Fin s \<longrightarrow>
                (\<forall>cf\<in>set cfs. is_fin (cf_discounted cf)) \<and>
                s = (\<Sum>cf\<leftarrow>cfs. fin_value (cf_discounted cf)))"
proof -
  from assms obtain inp m kvs
    where m: "compute_metrics inp = Inr m" and out: "out = JObj (set_outputs m kvs)"
    by (auto simp: calculate_metrics_eq_Inr)
  have "\<forall>s. py_sum (map cf_discounted (cashflows m)) = Fin s \<longrightarrow>
          (\<forall>cf\<in>set (cashflows m). is_fin (cf_discounted cf)) \<and>
          s = (\<Sum>cf\<leftarrow>cashflows m. fin_value (cf_discounted cf))"
    using py_sum_Fin[of "map cf_discounted (cashflows m)"] by (auto simp: comp_def)
  with compute_metrics_sum[OF m] out show ?thesis
    by (intro exI[of _ "cashflows m"]) (simp add: set_outputs_map_of)
qed

theorem discounted_sum_is_market_price_witness:
  "calculate_metrics no_parse no_parse example_bond = Inr example_result \<and>
   (\<exists>cfs. jfield example_result ''cashflows'' = Some (JArr (map cashflow_json cfs)) \<and>
      jfield example_result ''marketPrice'' = Some (JFloat (Fin (2757500 / 2809))) \<and>
      2757500 / 2809 = (\<Sum>cf\<leftarrow>cfs. fin_value (cf_discounted cf)))"
proof -
  have mp: "jfield example_result ''marketPrice'' = Some (JFloat (Fin (2757500 / 2809)))"
    by (simp add: example_result_def)
  from discounted_sum_is_market_price[OF example_bond_result[of no_parse no_parse]] obtain cfs
    where cfs: "jfield example_result ''cashflows'' = Some (JArr (map cashflow_json cfs))"
      and sum: "jfield example_result ''marketPrice'' = Some (JFloat (py_sum (map cf_discounted cfs)))"
      and fin: "\<forall>s. py_sum (map cf_discounted cfs) = Fin s \<longrightarrow>
                (\<forall>cf\<in>set cfs. is_fin (cf_discounted cf)) \<and>
                s = (\<Sum>cf\<leftarrow>cfs. fin_value (cf_discounted cf))"
    by blast
  from sum mp have "py_sum (map cf_discounted cfs) = Fin (2757500 / 2809)"
    by simp
  with fin have "2757500 / 2809 = (\<Sum>cf\<leftarrow>cfs. fin_value (cf_discounted cf))"
    by blast
  with cfs mp show ?thesis
    using example_bond_result[of no_parse no_parse] by blast
qed

text \<open>
  C5. For every bond the calculator returns a record for, the output \<open>cr01\<close> is the
  output \<open>pv01\<close> when the field \<open>type\<close> of the bond is the string "Corporate", and 0 for
  every other value of \<open>type\<close>.
\<close>

theorem cr01_corporate_only:
  assumes "calculate_metrics sf si b = Inr out"
  shows "\<exists>p. jfield out ''pv01'' = Some (JFloat p) \<and>
           jfield out ''cr01'' =
             Some (JFloat (if jfield b ''type'' = Some (JStr ''Corporate'') then p else Fin 0))"
proof -
  from assms obtain inp m kvs where "read_inputs sf si b = Inr inp"
     "compute_metrics inp = Inr m" "out = JObj (set_outputs m kvs)"
    by (auto simp: calculate_metrics_eq_Inr)
  then show ?thesis
    using compute_metrics_cr01[of inp m] read_inputs_type[of sf si b inp]
    by (simp add: set_outputs_map_of)
qed

theorem cr01_corporate_only_witness:
  "calculate_metrics no_parse no_parse government_bond = Inr government_result \<and>
   jfield government_bond ''type'' = Some (JStr ''Government'') \<and>
   jfield government_result ''pv01'' = Some (JFloat (Fin (1 / 110))) \<and>
   jfield government_result ''cr01'' = Some (JFloat (Fin 0))"
  using cr01_corporate_only[OF government_bond_result[of no_parse no_parse]]
    government_bond_result[of no_parse no_parse]
  by (simp add: government_bond_def government_result_def)



text \<open>
  C7. When standard input is empty the text "{}" is parsed in its place; given that
  \<open>json.loads\<close> reads "{}" as the empty object, the script raises nothing and writes the
  serialisation of the object whose one key "bonds" holds the empty list, for the empty
  input and for the input "{}" alike.
\<close>

theorem empty_payload:
  assumes "json_loads lib ''{}'' = Some (JObj [])"
  shows "main lib [] = \<lparr>raised = None, stdout = json_dumps lib (JObj [(''bonds'', JArr [])])\<rparr> \<and>
         main lib ''{}'' = \<lparr>raised = None, stdout = json_dumps lib (JObj [(''bonds'', JArr [])])\<rparr>"
  using assms by (simp add: main_def main_result_def read_bonds_def)

theorem empty_payload_witness:
  "json_loads stub_library ''{}'' = Some (JObj []) \<and>
   main stub_library [] = \<lparr>raised = None, stdout = ''{bonds: []}''\<rparr>"
proof -
  have h: "json_loads stub_library ''{}'' = Some (JObj [])"
    by (simp add: stub_library_def)
  from empty_payload[OF h] h show ?thesis
    by (simp add: stub_library_def)
qed

text \<open>
  C8. When a bond of the batch has a required field missing, or a field that does not
  convert to the number calculate\_metrics needs, calculate\_metrics raises on that bond,
  and the run ends with an exception and nothing written to standard output, whatever the
  bonds before it were.
\<close>

theorem no_partial_output:
  assumes "read_bonds lib raw = Inr bs" and "b \<in> set bs"
    and "bad_field (str_to_float lib) (str_to_int lib) b"
  shows "isl (calculate_metrics (str_to_float lib) (str_to_int lib) b) \<and>
         (\<exists>e. main lib raw = \<lparr>raised = Some e, stdout = []\<rparr>)"
proof -
  have bad: "isl (calculate_metrics (str_to_float lib) (str_to_int lib) b)"
    using assms(3) by (simp add: isl_read_inputs isl_calculate_metrics)
  with assms(2) have "isl (map_metrics (str_to_float lib) (str_to_int lib) bs)"
    by (rule map_metrics_fails)
  then have "isl (main_result lib raw)"
    using assms(1) by (simp add: main_result_def isl_bindE)
  then obtain e where "main_result lib raw = Inl e"
    by (cases "main_result lib raw") simp_all
  then have "main lib raw = \<lparr>raised = Some e, stdout = []\<rparr>"
    by (simp add: main_def)
  with bad show ?thesis by blast
qed

theorem no_partial_output_witness:
  "read_bonds stub_library batch_text = Inr [example_bond, faceless_bond] \<and>
   calculate_metrics no_parse no_parse example_bond = Inr example_result \<and>
   bad_field no_parse no_parse faceless_bond \<and>
   main stub_library batch_text = \<lparr>raised = Some (KeyError ''faceValue''), stdout = []\<rparr>"
proof -
  have rb: "read_bonds stub_library batch_text = Inr [example_bond, faceless_bond]"
    using batch_text_nonempty by (simp add: read_bonds_def stub_library_def)
  have bf: "bad_field (str_to_float stub_library) (str_to_int stub_library) faceless_bond"
    by (simp add: bad_field_def float_field_def faceless_bond_def)
  have lib: "str_to_float stub_library = no_parse" "str_to_int stub_library = no_parse"
    by (simp_all add: stub_library_def)
  have fl: "calculate_metrics no_parse no_parse faceless_bond = Inl (KeyError ''faceValue'')"
    by (simp add: calculate_metrics_def read_inputs_def float_field_def faceless_bond_def)
  have m: "main stub_library batch_text = \<lparr>raised = Some (KeyError ''faceValue''), stdout = []\<rparr>"
    by (simp add: main_def main_result_def rb lib example_bond_result fl)
  have mem: "faceless_bond \<in> set [example_bond, faceless_bond]"
    by simp
  from no_partial_output[OF rb mem bf] rb bf m lib show ?thesis
    by (simp add: example_bond_result)
qed

text \<open>
  C9. For every bond the calculator returns a record for, every key that is not one of
  the eleven computed keys has in the record the value it has in the bond (and is absent
  from the record when the bond does not have it); this covers the fields the calculator
  does not know.
\<close>

theorem input_fields_pass_through:
  assumes "calculate_metrics sf si b = Inr out" and "k \<notin> set computed_keys"
  shows "jfield out k = jfield b k"
  using assms by (auto simp: calculate_metrics_eq_Inr set_outputs_map_of computed_keys_def)

theorem input_fields_pass_through_witness:
  "calculate_metrics no_parse no_parse government_bond = Inr government_result \<and>
   ''isin'' \<notin> set computed_keys \<and>
   jfield government_result ''isin'' = Some (JStr ''XS0000000001'')"
proof -
  have k: "''isin'' \<notin> set computed_keys"
    by (simp add: computed_keys_def)
  show ?thesis
    using input_fields_pass_through[OF government_bond_result[of no_parse no_parse] k]
      government_bond_result[of no_parse no_parse] k
    by (simp add: government_bond_def)
qed

text \<open>
  C10. For every bond whose fields read (every conversion succeeds) and whose maturity
  converts to an integer that is zero or negative, calculate\_metrics returns a record
  (given that the rating and the sector can be looked up): its cashflows are the empty
  list, its market price, Macaulay duration, duration, convexity, pv01, dv01, cr01 and
  expected loss are 0, and its pd and lgd are 100 times the values looked up for the
  rating and the sector.
\<close>

theorem nonpositive_maturity_result:
  assumes "read_inputs sf si b = Inr inp" and "maturity inp \<le> 0"
    and "dict_get RATING_PD (rating inp) 0.001 = Inr p"
    and "dict_get SECTOR_LGD (sector inp) 0.40 = Inr l"
  shows "\<exists>out. calculate_metrics sf si b = Inr out \<and>
           jfield out ''cashflows'' = Some (JArr []) \<and>
           jfield out ''marketPrice'' = Some (JFloat (Fin 0)) \<and>
           jfield out ''macaulayDuration'' = Some (JFloat (Fin 0)) \<and>
           jfield out ''duration'' = Some (JFloat (Fin 0)) \<and>
           jfield out ''convexity'' = Some (JFloat (Fin 0)) \<and>
           jfield out ''pv01'' = Some (JFloat (Fin 0)) \<and>
           jfield out ''dv01'' = Some (JFloat (Fin 0)) \<and>
           jfield out ''cr01'' = Some (JFloat (Fin 0)) \<and>
           jfield out ''expectedLoss'' = Some (JFloat (Fin 0)) \<and>
           jfield out ''pd'' = Some (JFloat (Fin (p * 100))) \<and>
           jfield out ''lgd'' = Some (JFloat (Fin (l * 100)))"
proof -
  from calculate_metrics_of_compute[OF assms(1)] compute_metrics_empty[OF assms(2,3,4)]
  obtain kvs where "calculate_metrics sf si b = Inr (JObj (set_outputs
      \<lparr>market_price = Fin 0, macaulay_duration = Fin 0, duration = Fin 0, convexity = Fin 0,
          pv01 = Fin 0, dv01 = Fin 0, cr01 = Fin 0, pd = Fin (p * 100), lgd = Fin (l * 100),
          expected_loss = Fin 0, cashflows = []\<rparr> kvs))"
    by auto
  then show ?thesis
    by (simp add: set_outputs_map_of)
qed

theorem nonpositive_maturity_result_witness:
  "\<exists>out. calculate_metrics no_parse no_parse negative_maturity_bond = Inr out \<and>
           jfield out ''cashflows'' = Some (JArr []) \<and>
           jfield out ''marketPrice'' = Some (JFloat (Fin 0)) \<and>
           jfield out ''macaulayDuration'' = Some (JFloat (Fin 0)) \<and>
           jfield out ''duration'' = Some (JFloat (Fin 0)) \<and>
           jfield out ''convexity'' = Some (JFloat (Fin 0)) \<and>
           jfield out ''pv01'' = Some (JFloat (Fin 0)) \<and>
           jfield out ''dv01'' = Some (JFloat (Fin 0)) \<and>
           jfield out ''cr01'' = Some (JFloat (Fin 0)) \<and>
           jfield out ''expectedLoss'' = Some (JFloat (Fin 0)) \<and>
           jfield out ''pd'' = Some (JFloat (Fin 3.5)) \<and>
           jfield out ''lgd'' = Some (JFloat (Fin 50))"
proof -
  let ?inp = "\<lparr>face_value = Fin 1000, coupon_rate = Fin 5, ytm = Fin (- 100 / 100),
     maturity = - 2, bond_type = JStr ''Corporate'', rating = JStr ''BB'',
     sector = JStr ''Energy''\<rparr>"
  have p: "dict_get RATING_PD (rating ?inp) 0.001 = Inr 0.035"
    by (simp add: RATING_PD_def)
  have l: "dict_get SECTOR_LGD (sector ?inp) 0.40 = Inr 0.50"
    by (simp add: SECTOR_LGD_def)
  have neg: "maturity ?inp \<le> 0"
    by simp
  show ?thesis
    using nonpositive_maturity_result[OF negative_maturity_inputs[of no_parse no_parse] neg p l]
    by simp
qed

end
